theory Spec2Isabelle
  imports Complex_Main "HOL-Library.AList" "HOL-Library.Multiset"
begin

section \<open>Earnings-reversal strategy engine (report0422.py)\<close>

text \<open>
  A shallow embedding of the decision-and-execution engine of class
  \<open>EarningsReversalStrategy\<close>. A quote or a price is a real number or NaN, the value a
  quote field holds until the broker has sent one; the other floats (quantities, account
  values, fill reports, returns) are reals. Rounding errors and infinities are outside the
  model. Python dictionaries are association lists where the iteration order matters and
  maps where it does not, and every call into the broker, the market-data provider, the
  file system and the clock is an input.
\<close>

type_synonym symbol = string

subsection \<open>Candidate selection: \<open>select_stocks\<close>, lines 1604-1684\<close>

text \<open>
  A row of \<open>returns_df\<close>. The frame is built with the default index \<open>0..m-1\<close> over
  \<open>valid_returns\<close> in dictionary order and then sorted with \<open>sort_values\<close>, which moves
  the index labels with their rows: \<open>row_index\<close> is the label, the row's place before
  sorting.
\<close>

record returns_row =
  row_index :: nat
  row_symbol :: symbol
  row_return :: real

text \<open>\<open>{k: v for k, v in pre_earnings_returns.items() if v is not None}\<close>\<close>

fun valid_returns_of :: "(symbol \<times> real option) list \<Rightarrow> (symbol \<times> real) list" where
  "valid_returns_of [] = []"
| "valid_returns_of ((k, None) # kvs) = valid_returns_of kvs"
| "valid_returns_of ((k, Some v) # kvs) = (k, v) # valid_returns_of kvs"

definition frame_rows :: "(symbol \<times> real) list \<Rightarrow> returns_row list" where
  "frame_rows valid_returns =
     map (\<lambda>(i, (s, r)). \<lparr>row_index = i, row_symbol = s, row_return = r\<rparr>)
       (enumerate 0 valid_returns)"

text \<open>
  \<open>pd.DataFrame({...}).sort_values('pre_earnings_return')\<close>. Rows with equal returns are
  kept in their incoming order here; pandas does not promise an order among them.
\<close>

definition returns_df :: "(symbol \<times> real) list \<Rightarrow> returns_row list" where
  "returns_df valid_returns = sort_key row_return (frame_rows valid_returns)"

text \<open>
  \<open>max(1, int(len(returns_df) * 0.2))\<close>, with the product taken in the reals; for every
  length below \<open>2^52\<close> the double product truncates to the same integer.
\<close>

definition quintile_count :: "nat \<Rightarrow> nat" where
  "quintile_count m = max 1 (nat \<lfloor>real m * 0.2\<rfloor>)"

text \<open>
  Lines 1635-1649, reached with \<open>len(returns_df) \<ge> 2\<close>: the two halves for fewer than
  three rows, \<open>head(k)\<close> and \<open>tail(k)\<close> otherwise.
\<close>

definition quintile_candidates :: "returns_row list \<Rightarrow> symbol list \<times> symbol list" where
  "quintile_candidates df =
     (let m = length df in
      if m < 3 then
        (let mid_point = m div 2
         in (map row_symbol (take mid_point df), map row_symbol (drop mid_point df)))
      else
        (let bottom_quintile_count = quintile_count m
         in (map row_symbol (take bottom_quintile_count df),
             map row_symbol (drop (m - bottom_quintile_count) df))))"

text \<open>
  \<open>set(long_candidates).intersection(set(short_candidates))\<close>, listed in the order of the
  long list (the loops over it remove a different symbol at each step, so the order in
  which Python iterates the set does not change their result).
\<close>

definition common_stocks :: "symbol list \<Rightarrow> symbol list \<Rightarrow> symbol list" where
  "common_stocks long_candidates short_candidates =
     remdups (filter (\<lambda>s. s \<in> set short_candidates) long_candidates)"

text \<open>
  \<open>returns_df[returns_df['symbol'] == stock].index[0]\<close>: the index label of the first
  row of that symbol; \<open>None\<close> is the IndexError of an empty selection.
\<close>

definition stock_index :: "returns_row list \<Rightarrow> symbol \<Rightarrow> nat option" where
  "stock_index df stock = map_option row_index (find (\<lambda>r. row_symbol r = stock) df)"

text \<open>The loop of lines 1655-1666; \<open>None\<close> when a step raises.\<close>

fun resolve_loop ::
  "returns_row list \<Rightarrow> symbol list \<Rightarrow> symbol list \<times> symbol list \<Rightarrow>
   (symbol list \<times> symbol list) option" where
  "resolve_loop df [] (long_candidates, short_candidates) =
     Some (long_candidates, short_candidates)"
| "resolve_loop df (stock # rest) (long_candidates, short_candidates) =
     (case stock_index df stock of
        None \<Rightarrow> None
      | Some stock_index' \<Rightarrow>
          (let stock_position = real stock_index' / real (length df) in
           if stock_position < 0.5
           then resolve_loop df rest (long_candidates, remove1 stock short_candidates)
           else resolve_loop df rest (remove1 stock long_candidates, short_candidates)))"

definition resolve_overlap ::
  "returns_row list \<Rightarrow> symbol list \<Rightarrow> symbol list \<Rightarrow> (symbol list \<times> symbol list) option" where
  "resolve_overlap df long_candidates short_candidates =
     resolve_loop df (common_stocks long_candidates short_candidates)
       (long_candidates, short_candidates)"

text \<open>The second check, lines 1672-1679: a symbol still in both lists leaves the long list.\<close>

definition force_remove :: "symbol list \<Rightarrow> symbol list \<Rightarrow> symbol list" where
  "force_remove long_candidates short_candidates =
     fold remove1 (common_stocks long_candidates short_candidates) long_candidates"

text \<open>
  \<open>select_stocks\<close> from line 1604 on, as a function of the dictionary returned by
  \<open>calculate_pre_earnings_returns\<close> (in insertion order). The exits before that line
  (no upcoming earnings, no symbol, no market capitalisation) return the same
  \<open>([], [])\<close> as an empty dictionary does; line 1686 turns any exception into it too.
\<close>

definition select_stocks ::
  "nat \<Rightarrow> (symbol \<times> real option) list \<Rightarrow> symbol list \<times> symbol list" where
  "select_stocks max_positions pre_earnings_returns =
     (let valid_returns = valid_returns_of pre_earnings_returns in
      if valid_returns = [] then ([], [])
      else
        (let df = returns_df valid_returns in
         if length df < 2 then
           (case df of
              [row] \<Rightarrow> if row_return row < 0 then ([row_symbol row], []) else ([], [row_symbol row])
            | _ \<Rightarrow> ([], []))
         else
           (case resolve_overlap df (fst (quintile_candidates df)) (snd (quintile_candidates df)) of
              None \<Rightarrow> ([], [])
            | Some (long_candidates, short_candidates) \<Rightarrow>
                (let long_candidates' = take max_positions long_candidates;
                     short_candidates' = take max_positions short_candidates
                 in (force_remove long_candidates' short_candidates', short_candidates')))))"

subsection \<open>Prices\<close>

text \<open>
  A Python float that holds a price: a number or NaN. Every comparison with NaN is false
  and every arithmetic result with NaN is NaN.
\<close>

datatype pyfloat = Num real | NaN

text \<open>\<open>x > 0\<close>, \<open>x <= 0\<close> and \<open>x <= y\<close>.\<close>

fun gt_zero :: "pyfloat \<Rightarrow> bool" where
  "gt_zero (Num x) = (x > 0)"
| "gt_zero NaN = False"

fun le_zero :: "pyfloat \<Rightarrow> bool" where
  "le_zero (Num x) = (x \<le> 0)"
| "le_zero NaN = False"

fun float_le :: "pyfloat \<Rightarrow> pyfloat \<Rightarrow> bool" where
  "float_le (Num x) (Num y) = (x \<le> y)"
| "float_le _ _ = False"

text \<open>\<open>x * c\<close> for a number \<open>c\<close>, and \<open>(x + y) / 2\<close>.\<close>

fun float_times :: "pyfloat \<Rightarrow> real \<Rightarrow> pyfloat" where
  "float_times (Num x) c = Num (x * c)"
| "float_times NaN c = NaN"

fun midpoint :: "pyfloat \<Rightarrow> pyfloat \<Rightarrow> pyfloat" where
  "midpoint (Num x) (Num y) = Num ((x + y) / 2)"
| "midpoint _ _ = NaN"

subsection \<open>Engine state, broker and clock\<close>

datatype action = BUY | SELL

text \<open>
  A row of the trade history (\<open>record_trade\<close>, lines 704-712). The date string
  \<open>%Y-%m-%d\<close> is kept as the day's proleptic ordinal (\<open>date.toordinal()\<close>), the time
  string as microseconds since midnight.
\<close>

record trade_record =
  tr_date :: int
  tr_time :: nat
  tr_symbol :: symbol
  tr_action :: action
  tr_quantity :: int
  tr_price :: real
  tr_value :: real

datatype order_kind = LimitOrder pyfloat | MarketOrder

text \<open>An order as handed to \<open>ib.placeOrder\<close> (lines 1092-1117).\<close>

record order =
  o_symbol :: symbol
  o_action :: action
  o_quantity :: int
  o_kind :: order_kind
  o_outside_rth :: bool
  o_tif :: string

text \<open>
  \<open>trade.orderStatus\<close> as read at lines 1122-1129; the broker library starts \<open>filled\<close> and
  \<open>avgFillPrice\<close> at 0.0 and reports numbers.
\<close>

record order_status =
  os_status :: string
  os_filled :: real
  os_remaining :: real
  os_avg_fill_price :: real

text \<open>
  The ticker of \<open>ib.reqMktData\<close> (lines 991-1004); a field the broker has not sent is NaN.
\<close>

record ticker =
  tk_last :: pyfloat
  tk_close :: pyfloat
  tk_bid :: pyfloat
  tk_ask :: pyfloat

text \<open>
  The fields of \<open>self\<close> that the engine reads and writes (\<open>__init__\<close>, lines 837-849).
  \<open>positions\<close> is a dictionary iterated in insertion order. \<open>trade_history\<close> is \<open>None\<close>
  until \<open>load_trade_history\<close> has run: the initializer in force (the second one, line
  823) does not create the attribute. \<open>orders\<close> is not a field of the class: it lists,
  oldest first, the orders this object has passed to \<open>ib.placeOrder\<close>.
\<close>

record strategy =
  positions :: "(symbol \<times> real) list"
  stop_loss_prices :: "symbol \<rightharpoonup> pyfloat"
  last_buy_time :: "symbol \<rightharpoonup> real"
  cooldown_seconds :: real
  stop_loss_percent :: real
  max_positions :: nat
  price_cache :: "(symbol \<times> int \<times> nat) \<rightharpoonup> pyfloat"
  trade_history :: "trade_record list option"
  orders :: "order list"

text \<open>
  What the world answers during one call: the clock (one reading, held for the whole
  call), the broker, the market-data provider and the day's trade file.
  \<^item> \<open>now_day\<close>, \<open>now_time\<close>: \<open>dt.datetime.now()\<close> as day ordinal and microseconds since
    midnight; \<open>now_epoch\<close>: \<open>time.time()\<close>.
  \<^item> \<open>qualifies\<close>: whether \<open>ib.qualifyContracts\<close> returns a non-empty list; \<open>None\<close> when
    the call raises.
  \<^item> \<open>mkt_feed\<close>: the ticker after each 0.2 s wait; \<open>None\<close> when \<open>reqMktData\<close> raises.
  \<^item> \<open>yf_close\<close>: the last daily close of yfinance, which may be NaN; \<open>None\<close> when the
    history is empty or the query raises.
  \<^item> \<open>round_2dp\<close>: Python's \<open>round(x, 2)\<close> on the double that holds \<open>x\<close>.
  \<^item> \<open>order_feed\<close>: the order status after each one-second wait that follows
    \<open>placeOrder\<close>; \<open>None\<close> when \<open>placeOrder\<close> raises.
  \<^item> \<open>portfolio\<close>: \<open>ib.portfolio()\<close> as (symbol, position) pairs; \<open>None\<close> when it raises.
  \<^item> \<open>account_summary\<close>: \<open>ib.accountSummary()\<close> as (tag, currency, value) rows, the
    value being \<open>float(summary.value)\<close> or \<open>None\<close> when that conversion raises; \<open>None\<close>
    when the call raises.
  \<^item> \<open>trade_file\<close>: the rows of today's trade file; \<open>None\<close> when it is missing or
    unreadable.
  \<^item> \<open>earnings_date\<close>: the day of the first row of \<open>earnings_data\<close> for a symbol.
  \<^item> \<open>earnings_loaded\<close>: \<open>earnings_data\<close> is non-empty, or \<open>load_earnings_data\<close> succeeds.
  \<^item> \<open>pre_earnings_returns\<close>: the dictionary \<open>calculate_pre_earnings_returns\<close> returns.
\<close>

record env =
  now_day :: int
  now_time :: nat
  now_epoch :: real
  qualifies :: "symbol \<Rightarrow> bool option"
  mkt_feed :: "symbol \<Rightarrow> (nat \<Rightarrow> ticker) option"
  yf_close :: "symbol \<Rightarrow> pyfloat option"
  round_2dp :: "real \<Rightarrow> real"
  order_feed :: "order \<Rightarrow> (nat \<Rightarrow> order_status) option"
  portfolio :: "(symbol \<times> real) list option"
  account_summary :: "(string \<times> string \<times> real option) list option"
  trade_file :: "trade_record list option"
  earnings_date :: "symbol \<Rightarrow> int option"
  earnings_loaded :: bool
  pre_earnings_returns :: "(symbol \<times> real option) list"

text \<open>\<open>__init__\<close>, lines 837-849; \<open>orders\<close> starts empty.\<close>

definition init_strategy :: "real \<Rightarrow> real \<Rightarrow> strategy" where
  "init_strategy cooldown_days stop_loss_percent' =
     \<lparr>positions = [], stop_loss_prices = Map.empty, last_buy_time = Map.empty,
      cooldown_seconds = cooldown_days * 24 * 60 * 60, stop_loss_percent = stop_loss_percent',
      max_positions = 20, price_cache = Map.empty, trade_history = None, orders = []\<rparr>"

text \<open>\<open>dt.time(h, m)\<close> in microseconds since midnight; \<open>date.weekday()\<close> of a day ordinal.\<close>

definition time_hm :: "nat \<Rightarrow> nat \<Rightarrow> nat" where
  "time_hm h m = (h * 3600 + m * 60) * 1000000"

definition weekday :: "int \<Rightarrow> int" where
  "weekday d = (d + 6) mod 7"

subsection \<open>Trade history: lines 659-775\<close>

definition load_trade_history :: "strategy \<Rightarrow> env \<Rightarrow> strategy" where
  "load_trade_history st e =
     st\<lparr>trade_history := Some (case trade_file e of None \<Rightarrow> [] | Some rows \<Rightarrow> rows)\<rparr>"

text \<open>
  \<open>record_trade\<close>: the append raises (and is logged) while the attribute is missing. The
  rewrite of the day's file is an output and is not part of the state.
\<close>

definition record_trade :: "strategy \<Rightarrow> env \<Rightarrow> symbol \<Rightarrow> action \<Rightarrow> int \<Rightarrow> real \<Rightarrow> strategy" where
  "record_trade st e symbol' action' quantity price =
     (case trade_history st of
        None \<Rightarrow> st
      | Some history \<Rightarrow>
          st\<lparr>trade_history := Some (history @
            [\<lparr>tr_date = now_day e, tr_time = now_time e, tr_symbol = symbol',
              tr_action = action', tr_quantity = quantity, tr_price = price,
              tr_value = real_of_int quantity * price\<rparr>])\<rparr>)"

text \<open>\<open>is_traded_today\<close>, lines 743-775; a missing attribute raises and yields \<open>False\<close>.\<close>

definition is_traded_today :: "strategy \<Rightarrow> env \<Rightarrow> symbol \<Rightarrow> action option \<Rightarrow> bool" where
  "is_traded_today st e symbol' action' =
     (case trade_history st of
        None \<Rightarrow> False
      | Some history \<Rightarrow>
          if history = [] then False
          else
            (let today_trades = filter (\<lambda>t. tr_date t = now_day e) history in
             if today_trades = [] then False
             else
               (let symbol_trades = filter (\<lambda>t. tr_symbol t = symbol') today_trades in
                if symbol_trades = [] then False
                else
                  (case action' of
                     Some a \<Rightarrow> length (filter (\<lambda>t. tr_action t = a) symbol_trades) > 0
                   | None \<Rightarrow> True))))"

subsection \<open>Positions, stop-loss and cooldown: lines 909-966\<close>

text \<open>
  \<open>get_current_positions\<close> returns the dictionary it stored, or \<open>{}\<close> when
  \<open>ib.portfolio()\<close> raises (the stored one is then untouched).
\<close>

definition get_current_positions :: "strategy \<Rightarrow> env \<Rightarrow> (symbol \<times> real) list \<times> strategy" where
  "get_current_positions st e =
     (case portfolio e of
        None \<Rightarrow> ([], st)
      | Some pf \<Rightarrow>
          (let ps = fold (\<lambda>(symbol', quantity) acc. AList.update symbol' quantity acc) pf []
           in (ps, st\<lparr>positions := ps\<rparr>)))"

definition check_stop_loss :: "strategy \<Rightarrow> symbol \<Rightarrow> pyfloat \<Rightarrow> bool" where
  "check_stop_loss st symbol' current_price =
     (case stop_loss_prices st symbol' of
        Some stop \<Rightarrow> float_le current_price stop
      | None \<Rightarrow> False)"

definition can_buy_again :: "strategy \<Rightarrow> env \<Rightarrow> symbol \<Rightarrow> bool" where
  "can_buy_again st e symbol' =
     (case last_buy_time st symbol' of
        None \<Rightarrow> True
      | Some t \<Rightarrow> now_epoch e - t \<ge> cooldown_seconds st)"

subsection \<open>Price derivation: \<open>get_latest_price\<close>, lines 968-1040\<close>

definition has_price :: "ticker \<Rightarrow> bool" where
  "has_price t \<longleftrightarrow>
     gt_zero (tk_last t) \<or> gt_zero (tk_close t) \<or> gt_zero (tk_bid t) \<or> gt_zero (tk_ask t)"

text \<open>
  The waiting loop of lines 993-997: \<open>wait_ticker n feed i\<close> has \<open>n\<close> waits left after
  \<open>i\<close> waits done; the ticker is read as it stands when the loop ends.
\<close>

fun wait_ticker :: "nat \<Rightarrow> (nat \<Rightarrow> ticker) \<Rightarrow> nat \<Rightarrow> ticker" where
  "wait_ticker 0 feed i = feed i"
| "wait_ticker (Suc n) feed i =
     (if has_price (feed (Suc i)) then feed (Suc i) else wait_ticker n feed (Suc i))"

text \<open>Lines 1000-1004.\<close>

definition ticker_price :: "ticker \<Rightarrow> pyfloat" where
  "ticker_price t =
     (let price = tk_last t;
          price = (if le_zero price then tk_close t else price);
          price = (if le_zero price \<and> gt_zero (tk_bid t) \<and> gt_zero (tk_ask t)
                   then midpoint (tk_bid t) (tk_ask t) else price)
      in price)"

text \<open>
  The block of lines 987-997: the ticker as read after the waiting loop, \<open>None\<close> when a
  broker call in the block raises.
\<close>

definition live_ticker :: "env \<Rightarrow> symbol \<Rightarrow> ticker option" where
  "live_ticker e symbol' =
     (case qualifies e symbol' of
        None \<Rightarrow> None
      | Some _ \<Rightarrow>
          (case mkt_feed e symbol' of
             None \<Rightarrow> None
           | Some feed \<Rightarrow> Some (wait_ticker 5 feed 0)))"

definition ib_price :: "env \<Rightarrow> symbol \<Rightarrow> pyfloat option" where
  "ib_price e symbol' = map_option ticker_price (live_ticker e symbol')"

text \<open>The key \<open>symbol_%Y%m%d_%H\<close> of the price cache.\<close>

definition cache_key :: "env \<Rightarrow> symbol \<Rightarrow> symbol \<times> int \<times> nat" where
  "cache_key e symbol' = (symbol', now_day e, now_time e div time_hm 1 0)"

text \<open>
  \<open>get_latest_price(symbol)\<close> with \<open>use_yfinance\<close> at its default \<open>True\<close>, as every call
  in the class has it. Returns the price and the object with its updated cache.
\<close>

definition get_latest_price :: "strategy \<Rightarrow> env \<Rightarrow> symbol \<Rightarrow> pyfloat \<times> strategy" where
  "get_latest_price st e symbol' =
     (case price_cache st (cache_key e symbol') of
        Some cached \<Rightarrow> (cached, st)
      | None \<Rightarrow>
          (case (case ib_price e symbol' of
                   Some price \<Rightarrow> if gt_zero price then Some price else None
                 | None \<Rightarrow> None) of
             Some price \<Rightarrow>
               (price, st\<lparr>price_cache := (price_cache st)(cache_key e symbol' \<mapsto> price)\<rparr>)
           | None \<Rightarrow>
               (case yf_close e symbol' of
                  Some price \<Rightarrow>
                    (price, st\<lparr>price_cache := (price_cache st)(cache_key e symbol' \<mapsto> price)\<rparr>)
                | None \<Rightarrow> (Num 0, st))))"

subsection \<open>Order placement: \<open>place_order\<close>, lines 1042-1161\<close>

text \<open>\<open>int(x)\<close> of a float: truncation towards zero.\<close>

definition py_int :: "real \<Rightarrow> int" where
  "py_int x = (if x \<ge> 0 then \<lfloor>x\<rfloor> else \<lceil>x\<rceil>)"

text \<open>\<open>round(x, 2)\<close> of a price; NaN stays NaN.\<close>

fun round2 :: "env \<Rightarrow> pyfloat \<Rightarrow> pyfloat" where
  "round2 e (Num x) = Num (round_2dp e x)"
| "round2 e NaN = NaN"

text \<open>Lines 1086-1090 (and 1922-1926).\<close>

definition is_regular_hours :: "env \<Rightarrow> bool" where
  "is_regular_hours e \<longleftrightarrow>
     (now_time e \<ge> time_hm 9 30 \<and> now_time e \<le> time_hm 16 0) \<and> weekday (now_day e) < 5"

text \<open>Lines 1092-1114.\<close>

definition make_order :: "env \<Rightarrow> symbol \<Rightarrow> action \<Rightarrow> int \<Rightarrow> pyfloat \<Rightarrow> bool \<Rightarrow> order" where
  "make_order e symbol' action' quantity current_price use_limit_price =
     \<lparr>o_symbol = symbol', o_action = action', o_quantity = quantity,
      o_kind =
        (if use_limit_price \<or> \<not> is_regular_hours e then
           (if action' = BUY then LimitOrder (round2 e (float_times current_price 1.01))
            else LimitOrder (round2 e (float_times current_price 0.99)))
         else MarketOrder),
      o_outside_rth = True, o_tif = ''DAY''\<rparr>"

text \<open>
  The polling loop of lines 1120-1123: \<open>wait_order n feed i\<close> has \<open>n\<close> waits left after
  \<open>i\<close> waits done; the status is read as it stands when the loop ends.
\<close>

fun wait_order :: "nat \<Rightarrow> (nat \<Rightarrow> order_status) \<Rightarrow> nat \<Rightarrow> order_status" where
  "wait_order 0 feed i = feed i"
| "wait_order (Suc n) feed i =
     (if os_status (feed (Suc i)) \<in> set [''Filled'', ''Cancelled'', ''ApiCancelled'', ''Inactive'']
      then feed (Suc i) else wait_order n feed (Suc i))"

text \<open>
  Lines 1056-1129: validation, pricing, submission and polling. The result is \<open>None\<close>
  when the function returns \<open>False\<close> before an order reaches the broker (invalid
  quantity, contract not qualified, a price of 0 or less, or an exception), and otherwise
  the order placed, the reference price and the status read after polling. A NaN
  reference price passes the test of line 1081.
\<close>

definition submit_order ::
  "strategy \<Rightarrow> env \<Rightarrow> symbol \<Rightarrow> action \<Rightarrow> real \<Rightarrow> bool \<Rightarrow>
   (order \<times> pyfloat \<times> order_status) option \<times> strategy" where
  "submit_order st e symbol' action' quantity use_limit_price =
     (if quantity \<le> 0 then (None, st)
      else
        (let quantity' = py_int quantity in
         if quantity' \<le> 0 then (None, st)
         else
           (case qualifies e symbol' of
              None \<Rightarrow> (None, st)
            | Some False \<Rightarrow> (None, st)
            | Some True \<Rightarrow>
                (let (current_price, st1) = get_latest_price st e symbol' in
                 if le_zero current_price then (None, st1)
                 else
                   (let order' = make_order e symbol' action' quantity' current_price use_limit_price
                    in case order_feed e order' of
                         None \<Rightarrow> (None, st1)
                       | Some feed \<Rightarrow>
                           (Some (order', current_price, wait_order 10 feed 0),
                            st1\<lparr>orders := orders st1 @ [order']\<rparr>))))))"

text \<open>
  \<open>place_order(symbol, action, quantity, reason, use_limit_price)\<close>; \<open>reason\<close> only
  reaches the log and is left out. Lines 1135-1156 follow the submission.
\<close>

definition place_order ::
  "strategy \<Rightarrow> env \<Rightarrow> symbol \<Rightarrow> action \<Rightarrow> real \<Rightarrow> bool \<Rightarrow> bool \<times> strategy" where
  "place_order st e symbol' action' quantity use_limit_price =
     (case submit_order st e symbol' action' quantity use_limit_price of
        (None, st1) \<Rightarrow> (False, st1)
      | (Some (order', current_price, status), st1) \<Rightarrow>
          (let filled = os_filled status;
               avg_fill_price = os_avg_fill_price status;
               execution_price =
                 (if avg_fill_price > 0 then Num avg_fill_price else current_price);
               st2 = (if action' = BUY \<and> filled > 0
                      then st1\<lparr>last_buy_time := (last_buy_time st1)(symbol' \<mapsto> now_epoch e),
                               stop_loss_prices := (stop_loss_prices st1)
                                 (symbol' \<mapsto>
                                    float_times execution_price (1 - stop_loss_percent st1))\<rparr>
                      else st1)
           in (if os_status status = ''Filled'' then True
               else if filled > 0 then True
               else False, st2)))"

subsection \<open>Trading session: lines 1792-1859\<close>

text \<open>The holiday table of lines 1811-1821, as day ordinals.\<close>

definition us_holidays_2025 :: "int list" where
  "us_holidays_2025 =
     [739252, 739271, 739299, 739359, 739397, 739436, 739495, 739582, 739610]"

definition is_trading_day :: "int \<Rightarrow> bool" where
  "is_trading_day d =
     (if weekday d \<ge> 5 then False
      else if d \<in> set us_holidays_2025 then False
      else True)"

definition can_trade_now :: "env \<Rightarrow> bool" where
  "can_trade_now e =
     (if \<not> is_trading_day (now_day e) then False
      else if time_hm 4 0 \<le> now_time e \<and> now_time e < time_hm 9 30 then True
      else if time_hm 9 30 \<le> now_time e \<and> now_time e < time_hm 16 0 then True
      else if time_hm 16 0 \<le> now_time e \<and> now_time e < time_hm 20 0 then True
      else False)"

subsection \<open>Entries: \<open>execute_trades\<close>, lines 1861-2064\<close>

text \<open>
  Lines 1887-1895: the value of the first row tagged NetLiquidation in USD, \<open>0\<close> when
  there is none or its value does not convert.
\<close>

fun net_liquidation_of :: "(string \<times> string \<times> real option) list \<Rightarrow> real" where
  "net_liquidation_of [] = 0"
| "net_liquidation_of ((tag, currency, v) # rows) =
     (if tag = ''NetLiquidation'' \<and> currency = ''USD''
      then (case v of Some x \<Rightarrow> x | None \<Rightarrow> 0)
      else net_liquidation_of rows)"

definition capital_ratio :: real where "capital_ratio = 0.3"
definition long_allocation_ratio :: real where "long_allocation_ratio = 0.5"
definition short_allocation_ratio :: real where "short_allocation_ratio = 0.5"

text \<open>Lines 1910-1912 and 1932-1933.\<close>

definition total_capital :: "real \<Rightarrow> real" where
  "total_capital net_liquidation = net_liquidation * capital_ratio"

definition long_capital_per_stock :: "real \<Rightarrow> symbol list \<Rightarrow> real" where
  "long_capital_per_stock net_liquidation long_stocks =
     (if long_stocks \<noteq> []
      then total_capital net_liquidation * long_allocation_ratio / real (max (length long_stocks) 1)
      else 0)"

definition short_capital_per_stock :: "real \<Rightarrow> symbol list \<Rightarrow> real" where
  "short_capital_per_stock net_liquidation short_stocks =
     (if short_stocks \<noteq> []
      then total_capital net_liquidation * short_allocation_ratio / real (max (length short_stocks) 1)
      else 0)"

text \<open>
  The body of the long loop, lines 1953-1998. With a NaN price the \<open>int(...)\<close> of line 1981
  raises, which line 2000 logs before the loop goes on to the next symbol.
\<close>

definition long_entry :: "env \<Rightarrow> real \<Rightarrow> bool \<Rightarrow> symbol \<Rightarrow> strategy \<Rightarrow> strategy" where
  "long_entry e capital_per_stock use_limit_order symbol' st =
     (if symbol' = [] then st
      else if (case map_of (positions st) symbol' of Some q \<Rightarrow> q > 0 | None \<Rightarrow> False) then st
      else if is_traded_today st e symbol' (Some BUY) then st
      else if \<not> can_buy_again st e symbol' then st
      else
        (let (current_price, st1) = get_latest_price st e symbol' in
         if le_zero current_price then st1
         else
           (case current_price of
              NaN \<Rightarrow> st1
            | Num price \<Rightarrow>
                (let quantity = py_int (capital_per_stock / price) in
                 if quantity \<le> 0 then st1
                 else
                   (let (success, st2) =
                          place_order st1 e symbol' BUY (real_of_int quantity) use_limit_order
                    in if success then record_trade st2 e symbol' BUY quantity price
                       else st2)))))"

text \<open>The body of the short loop, lines 2008-2053, with line 2036 raising on a NaN price.\<close>

definition short_entry :: "env \<Rightarrow> real \<Rightarrow> bool \<Rightarrow> symbol \<Rightarrow> strategy \<Rightarrow> strategy" where
  "short_entry e capital_per_stock use_limit_order symbol' st =
     (if symbol' = [] then st
      else if (case map_of (positions st) symbol' of Some q \<Rightarrow> q < 0 | None \<Rightarrow> False) then st
      else if is_traded_today st e symbol' (Some SELL) then st
      else if \<not> can_buy_again st e symbol' then st
      else
        (let (current_price, st1) = get_latest_price st e symbol' in
         if le_zero current_price then st1
         else
           (case current_price of
              NaN \<Rightarrow> st1
            | Num price \<Rightarrow>
                (let quantity = py_int (capital_per_stock / price) in
                 if quantity \<le> 0 then st1
                 else
                   (let (success, st2) =
                          place_order st1 e symbol' SELL (real_of_int quantity) use_limit_order
                    in if success then record_trade st2 e symbol' SELL quantity price
                       else st2)))))"

definition execute_trades :: "strategy \<Rightarrow> env \<Rightarrow> symbol list \<Rightarrow> symbol list \<Rightarrow> strategy" where
  "execute_trades st e long_stocks short_stocks =
     (if \<not> can_trade_now e then st
      else
        (let st1 = snd (get_current_positions st e) in
         if long_stocks = [] \<and> short_stocks = [] then st1
         else
           (case account_summary e of
              None \<Rightarrow> st1
            | Some rows \<Rightarrow>
                (let net_liquidation = net_liquidation_of rows in
                 if net_liquidation \<le> 0 then st1
                 else
                   (let use_limit_order = \<not> is_regular_hours e;
                        st2 = load_trade_history st1 e;
                        st3 = fold (long_entry e (long_capital_per_stock net_liquidation long_stocks)
                                      use_limit_order) long_stocks st2
                    in fold (short_entry e (short_capital_per_stock net_liquidation short_stocks)
                               use_limit_order) short_stocks st3)))))"

subsection \<open>Exits: \<open>monitor_positions\<close> and \<open>check_exit_positions\<close>, lines 2065-2158\<close>

text \<open>The body of the stop-loss loop, lines 2081-2093 (\<open>use_limit_price\<close> at its default).\<close>

definition monitor_position :: "env \<Rightarrow> symbol \<times> real \<Rightarrow> strategy \<Rightarrow> strategy" where
  "monitor_position e = (\<lambda>(symbol', quantity) st.
     (let (current_price, st1) = get_latest_price st e symbol' in
      if le_zero current_price then st1
      else if quantity > 0 \<and> check_stop_loss st1 symbol' current_price
      then snd (place_order st1 e symbol' SELL \<bar>quantity\<bar> True)
      else st1))"

definition monitor_positions :: "strategy \<Rightarrow> env \<Rightarrow> strategy" where
  "monitor_positions st e =
     (let (positions', st1) = get_current_positions st e in
      if positions' = [] then st1
      else fold (monitor_position e) positions' st1)"

text \<open>The body of the holding-period loop, lines 2136-2149.\<close>

definition exit_position :: "env \<Rightarrow> symbol \<times> real \<Rightarrow> strategy \<Rightarrow> strategy" where
  "exit_position e = (\<lambda>(symbol', quantity) st.
     (case earnings_date e symbol' of
        None \<Rightarrow> st
      | Some earnings_date' \<Rightarrow>
          if now_day e \<ge> earnings_date' + 2 then
            (if quantity > 0 then snd (place_order st e symbol' SELL \<bar>quantity\<bar> True)
             else if quantity < 0 then snd (place_order st e symbol' BUY \<bar>quantity\<bar> True)
             else st)
          else st))"

definition check_exit_positions :: "strategy \<Rightarrow> env \<Rightarrow> strategy" where
  "check_exit_positions st e =
     (let (positions', st1) = get_current_positions st e in
      if positions' = [] then st1
      else fold (exit_position e) positions' st1)"

subsection \<open>One cycle: \<open>run\<close>, lines 2544-2582\<close>

text \<open>
  \<open>print_stock_selection\<close>, lines 1725-1781: it fetches the price of every long and then of
  every short candidate for its tables, which fills the price cache.
\<close>

definition print_stock_selection ::
  "strategy \<Rightarrow> env \<Rightarrow> symbol list \<Rightarrow> symbol list \<Rightarrow> strategy" where
  "print_stock_selection st e long_stocks short_stocks =
     fold (\<lambda>symbol' st'. snd (get_latest_price st' e symbol')) (long_stocks @ short_stocks) st"

text \<open>
  What \<open>select_stocks\<close> leaves in the object: line 1682 prints the selection, and is
  reached when two or more symbols are ranked.
\<close>

definition select_stocks_writes :: "strategy \<Rightarrow> env \<Rightarrow> strategy" where
  "select_stocks_writes st e =
     (let (long_candidates, short_candidates) =
            select_stocks (max_positions st) (pre_earnings_returns e)
      in if 2 \<le> length (valid_returns_of (pre_earnings_returns e))
         then print_stock_selection st e long_candidates short_candidates
         else st)"

text \<open>
  The dashboard printed at line 2562 only reads. \<open>select_stocks\<close> is given the returns the
  data pipeline computed in this cycle.
\<close>

definition run :: "strategy \<Rightarrow> env \<Rightarrow> bool \<times> strategy" where
  "run st e =
     (if \<not> earnings_loaded e then (False, st)
      else
        (let (long_stocks, short_stocks) =
               select_stocks (max_positions st) (pre_earnings_returns e);
             st0 = select_stocks_writes st e;
             st1 = execute_trades st0 e long_stocks short_stocks;
             st2 = monitor_positions st1 e;
             st3 = check_exit_positions st2 e
         in (True, st3)))"

subsection \<open>Sample inputs\<close>

text \<open>The list behind \<open>self.trade_history\<close>, empty while the attribute is missing.\<close>

definition known_trades :: "strategy \<Rightarrow> trade_record list" where
  "known_trades st = (case trade_history st of None \<Rightarrow> [] | Some history \<Rightarrow> history)"

definition sample_returns :: "(symbol \<times> real option) list" where
  "sample_returns = [(''A'', Some 3), (''B'', Some 1), (''C'', Some (- 5)), (''D'', None)]"

definition sample_five :: "(symbol \<times> real option) list" where
  "sample_five =
     [(''X'', Some (- 1)), (''Z'', Some 4), (''V'', Some (- 5)), (''Y'', Some 2), (''W'', Some (- 3))]"

text \<open>
  A Tuesday morning (22 April 2025, 10:00) with a broker that qualifies every contract,
  quotes 100 and fills every order in full at 98, and a \<open>round\<close> that rounds half up; and
  the object as \<open>__init__\<close> leaves it with a cooldown of 10 days and a stop-loss of 5
  percent.
\<close>

definition sample_env :: env where
  "sample_env =
     \<lparr>now_day = 739363, now_time = time_hm 10 0, now_epoch = 1000000,
      qualifies = (\<lambda>s. Some True),
      mkt_feed = (\<lambda>s. Some (\<lambda>i.
        \<lparr>tk_last = Num 100, tk_close = Num 99, tk_bid = Num 99, tk_ask = Num 101\<rparr>)),
      yf_close = (\<lambda>s. None),
      round_2dp = (\<lambda>x. real_of_int (round (x * 100)) / 100),
      order_feed = (\<lambda>ord. Some (\<lambda>i. \<lparr>os_status = ''Filled'',
        os_filled = real_of_int (o_quantity ord), os_remaining = 0, os_avg_fill_price = 98\<rparr>)),
      portfolio = Some [],
      account_summary = Some [(''NetLiquidation'', ''USD'', Some 100000)],
      trade_file = None,
      earnings_date = (\<lambda>s. None),
      earnings_loaded = True,
      pre_earnings_returns = sample_returns\<rparr>"

definition sample_strategy :: strategy where
  "sample_strategy = init_strategy 10 0.05"

text \<open>A history with a purchase of AAPL the day before and one of MSFT on the day.\<close>

definition sample_ledger :: strategy where
  "sample_ledger = sample_strategy\<lparr>trade_history := Some
     [\<lparr>tr_date = 739362, tr_time = 0, tr_symbol = ''AAPL'', tr_action = BUY,
       tr_quantity = 10, tr_price = 100, tr_value = 1000\<rparr>,
      \<lparr>tr_date = 739363, tr_time = 0, tr_symbol = ''MSFT'', tr_action = BUY,
       tr_quantity = 5, tr_price = 200, tr_value = 1000\<rparr>]\<rparr>"

text \<open>The same broker reporting a full fill with an average fill price of 0.\<close>

definition zero_avg_env :: env where
  "zero_avg_env = sample_env\<lparr>order_feed := (\<lambda>ord. Some (\<lambda>i. \<lparr>os_status = ''Filled'',
     os_filled = real_of_int (o_quantity ord), os_remaining = 0, os_avg_fill_price = 0\<rparr>))\<rparr>"

text \<open>No positive quote from any source, and ten shares of AAPL in the portfolio.\<close>

definition dark_env :: env where
  "dark_env = sample_env\<lparr>
     mkt_feed := (\<lambda>s. Some (\<lambda>i.
       \<lparr>tk_last = Num 0, tk_close = Num 0, tk_bid = Num 0, tk_ask = Num 0\<rparr>)),
     portfolio := Some [(''AAPL'', 10)]\<rparr>"

text \<open>The object with a price of 100 cached for AAPL in the current hour.\<close>

definition cached_strategy :: strategy where
  "cached_strategy =
     sample_strategy\<lparr>price_cache := [cache_key dark_env ''AAPL'' \<mapsto> Num 100]\<rparr>"

text \<open>The object with a stop-loss price of 95 stored for AAPL.\<close>

definition stopped_strategy :: strategy where
  "stopped_strategy = sample_strategy\<lparr>stop_loss_prices := [''AAPL'' \<mapsto> Num 95]\<rparr>"

text \<open>AAPL quoted at 90 with ten shares held; the same on Saturday 26 April 2025.\<close>

definition falling_env :: env where
  "falling_env = sample_env\<lparr>
     mkt_feed := (\<lambda>s. Some (\<lambda>i.
       \<lparr>tk_last = Num 90, tk_close = Num 99, tk_bid = Num 89, tk_ask = Num 91\<rparr>)),
     portfolio := Some [(''AAPL'', 10)]\<rparr>"

definition weekend_env :: env where
  "weekend_env = falling_env\<lparr>now_day := 739367\<rparr>"

text \<open>A net liquidation value of 0 with ten shares of AAPL in the portfolio.\<close>

definition broke_env :: env where
  "broke_env = sample_env\<lparr>
     account_summary := Some [(''NetLiquidation'', ''USD'', Some 0)],
     portfolio := Some [(''AAPL'', 10)]\<rparr>"

text \<open>The sample morning 1000 seconds later.\<close>

definition later_env :: env where
  "later_env = sample_env\<lparr>now_epoch := 1001000\<rparr>"

text \<open>No last trade received yet (NaN) while the close is 100, and nothing from yfinance.\<close>

definition unquoted_env :: env where
  "unquoted_env = sample_env\<lparr>
     mkt_feed := (\<lambda>s. Some (\<lambda>i.
       \<lparr>tk_last = NaN, tk_close = Num 100, tk_bid = NaN, tk_ask = NaN\<rparr>))\<rparr>"

text \<open>Bid and ask at 99 and 101 with no last trade and no close.\<close>

definition spread_env :: env where
  "spread_env = sample_env\<lparr>
     mkt_feed := (\<lambda>s. Some (\<lambda>i.
       \<lparr>tk_last = Num 0, tk_close = Num 0, tk_bid = Num 99, tk_ask = Num 101\<rparr>))\<rparr>"

section \<open>Properties\<close>

subsection \<open>Candidate selection\<close>

lemma quintile_count_div: "quintile_count m = max 1 (m div 5)"
  unfolding quintile_count_def by linarith

lemma quintile_count_twice:
  assumes "3 \<le> m"
  shows "2 * quintile_count m \<le> m"
proof -
  have "5 * (m div 5) \<le> m" by simp
  then have "2 * (m div 5) \<le> m" by linarith
  with assms show ?thesis by (simp add: quintile_count_div max_def)
qed

lemma valid_returns_keys: "set (map fst (valid_returns_of per)) \<subseteq> set (map fst per)"
  by (induction per rule: valid_returns_of.induct) auto

lemma valid_returns_distinct:
  "distinct (map fst per) \<Longrightarrow> distinct (map fst (valid_returns_of per))"
proof (induction per rule: valid_returns_of.induct)
  case (3 k v kvs)
  then show ?case using valid_returns_keys [of kvs] by auto
qed simp_all

lemma frame_rows_pairs: "map (\<lambda>r. (row_symbol r, row_return r)) (frame_rows vr) = vr"
proof -
  have "map (\<lambda>r. (row_symbol r, row_return r)) (frame_rows vr) = map snd (enumerate 0 vr)"
    by (simp add: frame_rows_def split_def o_def)
  then show ?thesis by simp
qed

lemma frame_rows_symbols: "map row_symbol (frame_rows vr) = map fst vr"
proof -
  have "map row_symbol (frame_rows vr) =
        map fst (map (\<lambda>r. (row_symbol r, row_return r)) (frame_rows vr))"
    by simp
  then show ?thesis by (simp only: frame_rows_pairs)
qed

lemma length_returns_df: "length (returns_df vr) = length vr"
  by (simp add: returns_df_def frame_rows_def)

lemma set_returns_df: "set (returns_df vr) = set (frame_rows vr)"
  by (simp add: returns_df_def)

lemma sorted_returns_df: "sorted (map row_return (returns_df vr))"
  by (simp add: returns_df_def)

lemma distinct_returns_df:
  assumes "distinct (map fst vr)"
  shows "distinct (map row_symbol (returns_df vr))"
proof -
  have "mset (map row_symbol (returns_df vr)) = mset (map row_symbol (frame_rows vr))"
    by (simp add: returns_df_def)
  then have "distinct (map row_symbol (returns_df vr)) = distinct (map row_symbol (frame_rows vr))"
    by (rule mset_eq_imp_distinct_iff)
  with assms show ?thesis by (simp add: frame_rows_symbols)
qed

lemma take_drop_disjoint:
  assumes "distinct (map f xs)" and "a \<le> b"
  shows "set (map f (take a xs)) \<inter> set (map f (drop b xs)) = {}"
proof -
  have "distinct (map f (take a xs) @ map f (drop a xs))"
    using assms(1) by (simp flip: map_append)
  then have "set (map f (take a xs)) \<inter> set (map f (drop a xs)) = {}"
    by simp
  moreover have "set (map f (drop b xs)) \<subseteq> set (map f (drop a xs))"
    using set_drop_subset_set_drop [OF assms(2), of xs] by auto
  ultimately show ?thesis by blast
qed

lemma quintile_candidates_disjoint:
  assumes "distinct (map row_symbol df)" and "2 \<le> length df"
  shows "set (fst (quintile_candidates df)) \<inter> set (snd (quintile_candidates df)) = {}"
proof (cases "length df < 3")
  case True
  then show ?thesis
    using take_drop_disjoint [OF assms(1), of "length df div 2" "length df div 2"]
    by (simp add: quintile_candidates_def Let_def)
next
  case False
  then have "quintile_count (length df) \<le> length df - quintile_count (length df)"
    using quintile_count_twice [of "length df"] by linarith
  from take_drop_disjoint [OF assms(1) this] False show ?thesis
    by (simp add: quintile_candidates_def Let_def)
qed

lemma common_stocks_disjoint: "set l \<inter> set s = {} \<Longrightarrow> common_stocks l s = []"
  by (auto simp: common_stocks_def filter_empty_conv)

lemma resolve_overlap_disjoint:
  "set l \<inter> set s = {} \<Longrightarrow> resolve_overlap df l s = Some (l, s)"
  by (simp add: resolve_overlap_def common_stocks_disjoint)

lemma force_remove_disjoint: "set l \<inter> set s = {} \<Longrightarrow> force_remove l s = l"
  by (simp add: force_remove_def common_stocks_disjoint)

lemma take_disjoint: "set l \<inter> set s = {} \<Longrightarrow> set (take n l) \<inter> set (take k s) = {}"
  using set_take_subset [of n l] set_take_subset [of k s] by blast

lemma select_stocks_many:
  assumes "distinct (map fst (valid_returns_of per))" and "2 \<le> length (valid_returns_of per)"
  shows "select_stocks mp per =
     (take mp (fst (quintile_candidates (returns_df (valid_returns_of per)))),
      take mp (snd (quintile_candidates (returns_df (valid_returns_of per)))))"
proof -
  let ?df = "returns_df (valid_returns_of per)"
  let ?l = "fst (quintile_candidates ?df)" and ?s = "snd (quintile_candidates ?df)"
  have d: "set ?l \<inter> set ?s = {}"
    using quintile_candidates_disjoint [of ?df] distinct_returns_df [OF assms(1)] assms(2)
    by (simp add: length_returns_df)
  have ne: "valid_returns_of per \<noteq> []" using assms(2) by auto
  have len: "\<not> length ?df < 2" using assms(2) by (simp add: length_returns_df)
  have f: "force_remove (take mp ?l) (take mp ?s) = take mp ?l"
    by (rule force_remove_disjoint) (rule take_disjoint [OF d])
  show ?thesis
    unfolding select_stocks_def Let_def
    by (simp only: ne len if_False resolve_overlap_disjoint [OF d] option.case prod.case f)
qed

lemma select_stocks_few:
  assumes "length (valid_returns_of per) < 2"
  shows "(fst (select_stocks mp per) = [] \<or> snd (select_stocks mp per) = []) \<and>
         length (fst (select_stocks mp per)) \<le> 1 \<and> length (snd (select_stocks mp per)) \<le> 1"
proof (cases "valid_returns_of per = []")
  case True
  then show ?thesis by (simp add: select_stocks_def)
next
  case False
  with assms have "length (returns_df (valid_returns_of per)) = 1"
    by (cases "valid_returns_of per") (auto simp: length_returns_df)
  then obtain row where "returns_df (valid_returns_of per) = [row]"
    by (auto simp: length_Suc_conv)
  with False show ?thesis by (simp add: select_stocks_def Let_def)
qed

text \<open>
  C1. For a dictionary of pre-earnings returns (its keys are distinct) and a positive
  \<open>max_positions\<close>, the two lists \<open>select_stocks\<close> returns share no symbol and each has
  at most \<open>max_positions\<close> entries; the initializer sets \<open>max_positions\<close> to 20.
\<close>

theorem select_stocks_disjoint_bounded:
  assumes "distinct (map fst per)" and "0 < mp"
  shows "set (fst (select_stocks mp per)) \<inter> set (snd (select_stocks mp per)) = {} \<and>
         length (fst (select_stocks mp per)) \<le> mp \<and>
         length (snd (select_stocks mp per)) \<le> mp"
proof (cases "length (valid_returns_of per) < 2")
  case True
  from select_stocks_few [OF True, of mp] assms(2)
  show ?thesis by auto
next
  case False
  then have two: "2 \<le> length (valid_returns_of per)" by simp
  have d: "distinct (map fst (valid_returns_of per))"
    by (rule valid_returns_distinct [OF assms(1)])
  have "set (fst (quintile_candidates (returns_df (valid_returns_of per)))) \<inter>
        set (snd (quintile_candidates (returns_df (valid_returns_of per)))) = {}"
    using quintile_candidates_disjoint [of "returns_df (valid_returns_of per)"]
      distinct_returns_df [OF d] two
    by (simp add: length_returns_df)
  then show ?thesis
    by (simp add: select_stocks_many [OF d two] take_disjoint)
qed

theorem select_stocks_disjoint_bounded_witness:
  "distinct (map fst sample_returns) \<and> 0 < max_positions (init_strategy 10 0.05) \<and>
   set (fst (select_stocks (max_positions (init_strategy 10 0.05)) sample_returns)) \<inter>
   set (snd (select_stocks (max_positions (init_strategy 10 0.05)) sample_returns)) = {} \<and>
   length (fst (select_stocks (max_positions (init_strategy 10 0.05)) sample_returns)) \<le> 20 \<and>
   length (snd (select_stocks (max_positions (init_strategy 10 0.05)) sample_returns)) \<le> 20"
proof -
  have h1: "distinct (map fst sample_returns)" by (simp add: sample_returns_def)
  have h2: "0 < max_positions (init_strategy 10 0.05)" by (simp add: init_strategy_def)
  have m: "max_positions (init_strategy 10 0.05) = 20" by (simp add: init_strategy_def)
  from select_stocks_disjoint_bounded [OF h1 h2] h1 h2 show ?thesis
    unfolding m by blast
qed

lemma sorted_take_drop:
  assumes "sorted (map g xs)" and "x \<in> set (take n xs)" and "y \<in> set (drop n xs)"
  shows "g x \<le> g y"
proof -
  have "sorted (map g (take n xs) @ map g (drop n xs))"
    using assms(1) by (simp flip: map_append)
  with assms(2,3) show ?thesis by (auto simp: sorted_append)
qed

lemma returns_df_row:
  "r \<in> set (returns_df vr) \<Longrightarrow> (row_symbol r, row_return r) \<in> set vr"
proof -
  assume "r \<in> set (returns_df vr)"
  then have "(row_symbol r, row_return r) \<in> set (map (\<lambda>r. (row_symbol r, row_return r)) (frame_rows vr))"
    by (simp add: set_returns_df)
  then show ?thesis by (simp only: frame_rows_pairs)
qed

lemma returns_df_has_row:
  assumes "(s, x) \<in> set vr"
  shows "\<exists>r \<in> set (returns_df vr). row_symbol r = s \<and> row_return r = x"
proof -
  from assms have "(s, x) \<in> set (map (\<lambda>r. (row_symbol r, row_return r)) (frame_rows vr))"
    by (simp only: frame_rows_pairs)
  then show ?thesis by (auto simp: set_returns_df)
qed

lemma below_cut:
  assumes d: "distinct (map fst vr)"
    and a: "(a, ra) \<in> set vr" "a \<in> set (map row_symbol (take n (returns_df vr)))"
    and b: "(b, rb) \<in> set vr" "b \<notin> set (map row_symbol (take n (returns_df vr)))"
  shows "ra \<le> rb"
proof -
  let ?df = "returns_df vr"
  from a(2) obtain x where x: "x \<in> set (take n ?df)" "row_symbol x = a" by auto
  then have ax: "(a, row_return x) \<in> set vr"
    using returns_df_row [of x vr] in_set_takeD [of x n ?df] by auto
  have xa: "row_return x = ra" by (rule eq_key_imp_eq_value [OF d ax a(1)])
  from returns_df_has_row [OF b(1)] obtain y where
    y: "y \<in> set ?df" "row_symbol y = b" "row_return y = rb" by blast
  have "set ?df = set (take n ?df) \<union> set (drop n ?df)"
    by (simp flip: set_append)
  with y(1) have "y \<in> set (take n ?df) \<union> set (drop n ?df)" by simp
  with b(2) y(2) have "y \<in> set (drop n ?df)" by auto
  from sorted_take_drop [OF sorted_returns_df x(1) this] xa y(3) show ?thesis by simp
qed

lemma above_cut:
  assumes d: "distinct (map fst vr)"
    and a: "(a, ra) \<in> set vr" "a \<in> set (map row_symbol (drop n (returns_df vr)))"
    and b: "(b, rb) \<in> set vr" "b \<notin> set (map row_symbol (drop n (returns_df vr)))"
  shows "rb \<le> ra"
proof -
  let ?df = "returns_df vr"
  from a(2) obtain x where x: "x \<in> set (drop n ?df)" "row_symbol x = a" by auto
  then have ax: "(a, row_return x) \<in> set vr"
    using returns_df_row [of x vr] in_set_dropD [of x n ?df] by auto
  have xa: "row_return x = ra" by (rule eq_key_imp_eq_value [OF d ax a(1)])
  from returns_df_has_row [OF b(1)] obtain y where
    y: "y \<in> set ?df" "row_symbol y = b" "row_return y = rb" by blast
  have "set ?df = set (take n ?df) \<union> set (drop n ?df)"
    by (simp flip: set_append)
  with y(1) have "y \<in> set (take n ?df) \<union> set (drop n ?df)" by simp
  with b(2) y(2) have "y \<in> set (take n ?df)" by auto
  from sorted_take_drop [OF sorted_returns_df this x(1)] xa y(3) show ?thesis by simp
qed

lemma quintile_candidates_large:
  "3 \<le> length df \<Longrightarrow>
   quintile_candidates df =
     (map row_symbol (take (quintile_count (length df)) df),
      map row_symbol (drop (length df - quintile_count (length df)) df))"
  by (simp add: quintile_candidates_def Let_def)

lemma returns_df_pairs:
  "mset (map (\<lambda>r. (row_symbol r, row_return r)) (returns_df vr)) = mset vr"
proof -
  have "mset (map (\<lambda>r. (row_symbol r, row_return r)) (returns_df vr)) =
        mset (map (\<lambda>r. (row_symbol r, row_return r)) (frame_rows vr))"
    by (simp add: returns_df_def)
  then show ?thesis by (simp only: frame_rows_pairs)
qed

lemma returns_df_symbols: "set (map row_symbol (returns_df vr)) = set (map fst vr)"
proof -
  have "set (map row_symbol (returns_df vr)) = set (map row_symbol (frame_rows vr))"
    by (simp add: set_returns_df)
  then show ?thesis by (simp only: frame_rows_symbols)
qed

text \<open>
  C2. With at least three symbols that have a pre-earnings return, \<open>returns_df\<close> holds
  exactly those symbols with their returns, in ascending order of return; the long list
  taken before overlap resolution is the symbols of its first \<open>max(1, floor(m * 0.2))\<close>
  rows and the short list the symbols of its last rows of the same count. Each list has
  that many distinct ranked symbols; no ranked symbol outside the long list has a lower
  return than one inside it, and none outside the short list has a higher return than one
  inside it.
\<close>

theorem quintile_candidates_extremes:
  assumes "distinct (map fst per)" and "3 \<le> length (valid_returns_of per)"
  shows "mset (map (\<lambda>r. (row_symbol r, row_return r)) (returns_df (valid_returns_of per)))
           = mset (valid_returns_of per) \<and>
         sorted (map row_return (returns_df (valid_returns_of per))) \<and>
         fst (quintile_candidates (returns_df (valid_returns_of per))) =
           map row_symbol
             (take (max 1 (nat \<lfloor>real (length (valid_returns_of per)) * 0.2\<rfloor>))
                (returns_df (valid_returns_of per))) \<and>
         snd (quintile_candidates (returns_df (valid_returns_of per))) =
           map row_symbol
             (drop (length (valid_returns_of per)
                      - max 1 (nat \<lfloor>real (length (valid_returns_of per)) * 0.2\<rfloor>))
                (returns_df (valid_returns_of per))) \<and>
         length (fst (quintile_candidates (returns_df (valid_returns_of per))))
           = max 1 (nat \<lfloor>real (length (valid_returns_of per)) * 0.2\<rfloor>) \<and>
         length (snd (quintile_candidates (returns_df (valid_returns_of per))))
           = max 1 (nat \<lfloor>real (length (valid_returns_of per)) * 0.2\<rfloor>) \<and>
         distinct (fst (quintile_candidates (returns_df (valid_returns_of per)))) \<and>
         distinct (snd (quintile_candidates (returns_df (valid_returns_of per)))) \<and>
         set (fst (quintile_candidates (returns_df (valid_returns_of per))))
           \<subseteq> set (map fst (valid_returns_of per)) \<and>
         set (snd (quintile_candidates (returns_df (valid_returns_of per))))
           \<subseteq> set (map fst (valid_returns_of per)) \<and>
         (\<forall>(a, ra) \<in> set (valid_returns_of per). \<forall>(b, rb) \<in> set (valid_returns_of per).
            a \<in> set (fst (quintile_candidates (returns_df (valid_returns_of per)))) \<and>
            b \<notin> set (fst (quintile_candidates (returns_df (valid_returns_of per))))
            \<longrightarrow> ra \<le> rb) \<and>
         (\<forall>(a, ra) \<in> set (valid_returns_of per). \<forall>(b, rb) \<in> set (valid_returns_of per).
            a \<in> set (snd (quintile_candidates (returns_df (valid_returns_of per)))) \<and>
            b \<notin> set (snd (quintile_candidates (returns_df (valid_returns_of per))))
            \<longrightarrow> rb \<le> ra)"
proof -
  let ?vr = "valid_returns_of per"
  let ?df = "returns_df ?vr"
  let ?k = "quintile_count (length ?vr)"
  have d: "distinct (map fst ?vr)" by (rule valid_returns_distinct [OF assms(1)])
  have qc: "quintile_candidates ?df =
      (map row_symbol (take ?k ?df), map row_symbol (drop (length ?vr - ?k) ?df))"
    using quintile_candidates_large [of ?df] assms(2) by (simp add: length_returns_df)
  have k: "?k \<le> length ?vr" using quintile_count_twice [OF assms(2)] by linarith
  have kdef: "?k = max 1 (nat \<lfloor>real (length ?vr) * 0.2\<rfloor>)" by (simp add: quintile_count_def)
  have ds: "distinct (map row_symbol ?df)" by (rule distinct_returns_df [OF d])
  have p: "mset (map (\<lambda>r. (row_symbol r, row_return r)) ?df) = mset ?vr"
    by (rule returns_df_pairs)
  have s: "sorted (map row_return ?df)" by (rule sorted_returns_df)
  have q1: "fst (quintile_candidates ?df) = map row_symbol (take ?k ?df)" by (simp add: qc)
  have q2: "snd (quintile_candidates ?df) = map row_symbol (drop (length ?vr - ?k) ?df)"
    by (simp add: qc)
  have l1: "length (fst (quintile_candidates ?df)) = ?k"
    using k by (simp add: qc length_returns_df)
  have l2: "length (snd (quintile_candidates ?df)) = ?k"
    using k by (simp add: qc length_returns_df)
  have d1: "distinct (fst (quintile_candidates ?df))"
    using ds by (simp add: qc flip: take_map)
  have d2: "distinct (snd (quintile_candidates ?df))"
    using ds by (simp add: qc flip: drop_map)
  have m1: "set (fst (quintile_candidates ?df)) \<subseteq> set (map fst ?vr)"
    unfolding q1 using set_take_subset [of ?k ?df] returns_df_symbols [of ?vr] by auto
  have m2: "set (snd (quintile_candidates ?df)) \<subseteq> set (map fst ?vr)"
    unfolding q2 using set_drop_subset [of "length ?vr - ?k" ?df] returns_df_symbols [of ?vr]
    by auto
  have e1: "\<forall>(a, ra) \<in> set ?vr. \<forall>(b, rb) \<in> set ?vr.
      a \<in> set (fst (quintile_candidates ?df)) \<and> b \<notin> set (fst (quintile_candidates ?df))
      \<longrightarrow> ra \<le> rb"
    unfolding qc fst_conv using below_cut [OF d] by blast
  have e2: "\<forall>(a, ra) \<in> set ?vr. \<forall>(b, rb) \<in> set ?vr.
      a \<in> set (snd (quintile_candidates ?df)) \<and> b \<notin> set (snd (quintile_candidates ?df))
      \<longrightarrow> rb \<le> ra"
    unfolding qc snd_conv using above_cut [OF d] by blast
  from p s q1 q2 l1 l2 d1 d2 m1 m2 e1 e2 show ?thesis unfolding kdef by blast
qed

lemma sample_five_candidates:
  "quintile_candidates (returns_df (valid_returns_of sample_five)) = ([''V''], [''Z''])"
  by (simp add: sample_five_def returns_df_def frame_rows_def quintile_candidates_def
      quintile_count_div)

theorem quintile_candidates_extremes_witness:
  "distinct (map fst sample_five) \<and> 3 \<le> length (valid_returns_of sample_five) \<and>
   max 1 (nat \<lfloor>real (length (valid_returns_of sample_five)) * 0.2\<rfloor>) = 1 \<and>
   quintile_candidates (returns_df (valid_returns_of sample_five)) = ([''V''], [''Z'']) \<and>
   length (fst (quintile_candidates (returns_df (valid_returns_of sample_five)))) =
     max 1 (nat \<lfloor>real (length (valid_returns_of sample_five)) * 0.2\<rfloor>) \<and>
   length (snd (quintile_candidates (returns_df (valid_returns_of sample_five)))) =
     max 1 (nat \<lfloor>real (length (valid_returns_of sample_five)) * 0.2\<rfloor>) \<and>
   set (fst (quintile_candidates (returns_df (valid_returns_of sample_five))))
     \<subseteq> set (map fst (valid_returns_of sample_five)) \<and>
   set (snd (quintile_candidates (returns_df (valid_returns_of sample_five))))
     \<subseteq> set (map fst (valid_returns_of sample_five))"
proof -
  have h1: "distinct (map fst sample_five)" by (simp add: sample_five_def)
  have h2: "3 \<le> length (valid_returns_of sample_five)" by (simp add: sample_five_def)
  have k: "max 1 (nat \<lfloor>real (length (valid_returns_of sample_five)) * 0.2\<rfloor>) = 1"
    using quintile_count_div [of "length (valid_returns_of sample_five)"]
    by (simp add: quintile_count_def sample_five_def)
  from quintile_candidates_extremes [OF h1 h2] h1 h2 k sample_five_candidates
  show ?thesis by blast
qed

subsection \<open>Trade history\<close>

text \<open>
  C9. \<open>is_traded_today(symbol, action)\<close> is true exactly when the trade history holds a
  record dated today for that symbol (and with that action, when one is given); when every
  record of the symbol is dated an earlier day, it is false.
\<close>

theorem is_traded_today_iff:
  "(is_traded_today st e symb act \<longleftrightarrow>
     (\<exists>t \<in> set (known_trades st). tr_date t = now_day e \<and> tr_symbol t = symb \<and>
        (case act of None \<Rightarrow> True | Some a \<Rightarrow> tr_action t = a))) \<and>
   ((\<forall>t \<in> set (known_trades st). tr_symbol t = symb \<longrightarrow> tr_date t < now_day e)
      \<longrightarrow> \<not> is_traded_today st e symb act)"
proof -
  have main: "is_traded_today st e symb act \<longleftrightarrow>
     (\<exists>t \<in> set (known_trades st). tr_date t = now_day e \<and> tr_symbol t = symb \<and>
        (case act of None \<Rightarrow> True | Some a \<Rightarrow> tr_action t = a))"
  proof (cases "trade_history st")
    case None
    then show ?thesis by (simp add: is_traded_today_def known_trades_def)
  next
    case (Some history)
    then show ?thesis
      by (cases act) (auto simp: is_traded_today_def known_trades_def Let_def filter_empty_conv)
  qed
  then show ?thesis by auto
qed

theorem is_traded_today_iff_witness:
  "is_traded_today sample_ledger sample_env ''MSFT'' (Some BUY) \<and>
   \<not> is_traded_today sample_ledger sample_env ''AAPL'' (Some BUY) \<and>
   \<lparr>tr_date = now_day sample_env - 1, tr_time = 0, tr_symbol = ''AAPL'', tr_action = BUY,
     tr_quantity = 10, tr_price = 100, tr_value = 1000\<rparr> \<in> set (known_trades sample_ledger)"
proof -
  have k: "known_trades sample_ledger =
     [\<lparr>tr_date = 739362, tr_time = 0, tr_symbol = ''AAPL'', tr_action = BUY,
       tr_quantity = 10, tr_price = 100, tr_value = 1000\<rparr>,
      \<lparr>tr_date = 739363, tr_time = 0, tr_symbol = ''MSFT'', tr_action = BUY,
       tr_quantity = 5, tr_price = 200, tr_value = 1000\<rparr>]"
    by (simp add: known_trades_def sample_ledger_def)
  have d: "now_day sample_env = 739363" by (simp add: sample_env_def)
  from is_traded_today_iff [of sample_ledger sample_env "''MSFT''" "Some BUY"]
    is_traded_today_iff [of sample_ledger sample_env "''AAPL''" "Some BUY"]
  show ?thesis by (simp add: k d)
qed

subsection \<open>Pricing and order placement\<close>

lemma wait_ticker_numeral [simp]:
  "wait_ticker (numeral k) feed i =
     (if has_price (feed (Suc i)) then feed (Suc i)
      else wait_ticker (pred_numeral k) feed (Suc i))"
  by (simp add: numeral_eq_Suc)

lemma wait_order_numeral [simp]:
  "wait_order (numeral k) feed i =
     (if os_status (feed (Suc i)) \<in> set [''Filled'', ''Cancelled'', ''ApiCancelled'', ''Inactive'']
      then feed (Suc i) else wait_order (pred_numeral k) feed (Suc i))"
  by (simp add: numeral_eq_Suc)

lemmas sample_defs = sample_env_def sample_strategy_def init_strategy_def zero_avg_env_def
  later_env_def dark_env_def cached_strategy_def stopped_strategy_def falling_env_def
  weekend_env_def broke_env_def unquoted_env_def spread_env_def

lemmas order_defs = place_order_def submit_order_def get_latest_price_def ib_price_def
  live_ticker_def cache_key_def ticker_price_def has_price_def py_int_def make_order_def
  is_regular_hours_def time_hm_def weekday_def Let_def

lemma get_latest_price_fields:
  "orders (snd (get_latest_price st e symb)) = orders st"
  "last_buy_time (snd (get_latest_price st e symb)) = last_buy_time st"
  "stop_loss_prices (snd (get_latest_price st e symb)) = stop_loss_prices st"
  "stop_loss_percent (snd (get_latest_price st e symb)) = stop_loss_percent st"
  "cooldown_seconds (snd (get_latest_price st e symb)) = cooldown_seconds st"
  "positions (snd (get_latest_price st e symb)) = positions st"
  "trade_history (snd (get_latest_price st e symb)) = trade_history st"
  "max_positions (snd (get_latest_price st e symb)) = max_positions st"
  by (simp_all add: get_latest_price_def split: option.splits)

lemma submit_order_fields:
  "last_buy_time (snd (submit_order st e symb act q lmt)) = last_buy_time st"
  "stop_loss_prices (snd (submit_order st e symb act q lmt)) = stop_loss_prices st"
  "stop_loss_percent (snd (submit_order st e symb act q lmt)) = stop_loss_percent st"
  "cooldown_seconds (snd (submit_order st e symb act q lmt)) = cooldown_seconds st"
  "positions (snd (submit_order st e symb act q lmt)) = positions st"
  "trade_history (snd (submit_order st e symb act q lmt)) = trade_history st"
  "max_positions (snd (submit_order st e symb act q lmt)) = max_positions st"
  using get_latest_price_fields [of st e symb]
  by (simp_all add: submit_order_def Let_def split_def split: option.splits bool.splits)

lemma submit_order_none_orders:
  "fst (submit_order st e symb act q lmt) = None \<Longrightarrow>
   orders (snd (submit_order st e symb act q lmt)) = orders st"
  using get_latest_price_fields(1) [of st e symb]
  by (simp add: submit_order_def Let_def split_def split: option.splits bool.splits if_splits)

text \<open>
  C4, as amended. An order that does not reach the broker leaves \<open>last_buy_time\<close> and
  \<open>stop_loss_prices\<close> as they were and returns false. For an order that was placed, the two
  maps change exactly when it is a BUY with a filled quantity above 0: \<open>last_buy_time[symbol]\<close>
  becomes the current time and \<open>stop_loss_prices[symbol]\<close> becomes the execution price times
  \<open>1 - stop_loss_percent\<close>, where the execution price is the average fill price when that
  is positive and the reference price fetched before the order otherwise.
\<close>

theorem place_order_cooldown_stop_loss:
  "(case fst (submit_order st e symb act q lmt) of
      None \<Rightarrow>
        \<not> fst (place_order st e symb act q lmt) \<and>
        orders (snd (place_order st e symb act q lmt)) = orders st \<and>
        last_buy_time (snd (place_order st e symb act q lmt)) = last_buy_time st \<and>
        stop_loss_prices (snd (place_order st e symb act q lmt)) = stop_loss_prices st
    | Some (ord, current_price, status) \<Rightarrow>
        if act = BUY \<and> os_filled status > 0 then
          last_buy_time (snd (place_order st e symb act q lmt)) =
            (last_buy_time st)(symb \<mapsto> now_epoch e) \<and>
          stop_loss_prices (snd (place_order st e symb act q lmt)) =
            (stop_loss_prices st)(symb \<mapsto>
               float_times
                 (if os_avg_fill_price status > 0 then Num (os_avg_fill_price status)
                  else current_price)
                 (1 - stop_loss_percent st))
        else
          last_buy_time (snd (place_order st e symb act q lmt)) = last_buy_time st \<and>
          stop_loss_prices (snd (place_order st e symb act q lmt)) = stop_loss_prices st)"
proof (cases "submit_order st e symb act q lmt")
  case (Pair res st1)
  have f: "last_buy_time st1 = last_buy_time st" "stop_loss_prices st1 = stop_loss_prices st"
    "stop_loss_percent st1 = stop_loss_percent st"
    using submit_order_fields(1-3) [of st e symb act q lmt] Pair by simp_all
  show ?thesis
  proof (cases res)
    case None
    with Pair f submit_order_none_orders [of st e symb act q lmt]
    show ?thesis by (simp add: place_order_def)
  next
    case (Some triple)
    obtain ord current_price status where t: "triple = (ord, current_price, status)"
      by (cases triple)
    with Pair Some f show ?thesis by (cases act) (simp_all add: place_order_def Let_def)
  qed
qed

lemma sample_submit:
  "fst (submit_order sample_strategy sample_env ''AAPL'' BUY 10 True) =
     Some (make_order sample_env ''AAPL'' BUY 10 (Num 100) True, Num 100,
           \<lparr>os_status = ''Filled'', os_filled = 10, os_remaining = 0, os_avg_fill_price = 98\<rparr>)"
  by (simp add: order_defs sample_defs)

theorem place_order_cooldown_stop_loss_witness:
  "last_buy_time (snd (place_order sample_strategy sample_env ''AAPL'' BUY 10 True)) ''AAPL''
     = Some 1000000 \<and>
   stop_loss_prices (snd (place_order sample_strategy sample_env ''AAPL'' BUY 10 True)) ''AAPL''
     = Some (Num (98 * (1 - 0.05))) \<and>
   last_buy_time (snd (place_order sample_strategy sample_env ''AAPL'' SELL 10 True)) ''AAPL''
     = None"
proof -
  have s: "fst (submit_order sample_strategy sample_env ''AAPL'' SELL 10 True) =
     Some (make_order sample_env ''AAPL'' SELL 10 (Num 100) True, Num 100,
           \<lparr>os_status = ''Filled'', os_filled = 10, os_remaining = 0, os_avg_fill_price = 98\<rparr>)"
    by (simp add: order_defs sample_defs)
  from place_order_cooldown_stop_loss [of sample_strategy sample_env "''AAPL''" BUY 10 True]
    place_order_cooldown_stop_loss [of sample_strategy sample_env "''AAPL''" SELL 10 True]
  show ?thesis
    by (simp add: sample_submit s) (simp add: sample_defs)
qed

text \<open>
  A BUY of 10 filled in full with a reported average fill price of 0 and a reference price
  of 100: the stop-loss price stored is 95, not \<open>0 * (1 - 0.05)\<close>.
\<close>

theorem stop_loss_reference_price_counterexample:
  "fst (submit_order sample_strategy zero_avg_env ''AAPL'' BUY 10 True) =
     Some (make_order zero_avg_env ''AAPL'' BUY 10 (Num 100) True, Num 100,
           \<lparr>os_status = ''Filled'', os_filled = 10, os_remaining = 0, os_avg_fill_price = 0\<rparr>) \<and>
   stop_loss_prices (snd (place_order sample_strategy zero_avg_env ''AAPL'' BUY 10 True)) ''AAPL''
     = Some (Num 95) \<and>
   Num 95 \<noteq> Num (0 * (1 - stop_loss_percent sample_strategy))"
  by (simp add: order_defs sample_defs)








text \<open>
  A quote that is NaN is neither positive nor at most 0, so the tests of lines 1001 and
  1003 do not move on from it: with no last trade received and a close of 100, the close
  is not used and the function ends at its final \<open>return 0\<close>.
\<close>

lemma nan_last_skips_close:
  "live_ticker unquoted_env ''AAPL'' =
     Some \<lparr>tk_last = NaN, tk_close = Num 100, tk_bid = NaN, tk_ask = NaN\<rparr> \<and>
   fst (get_latest_price sample_strategy unquoted_env ''AAPL'') = Num 0"
  by (simp add: order_defs sample_defs)

subsection \<open>Entries, exits and the cycle\<close>

lemma place_order_sell_fields:
  "last_buy_time (snd (place_order st e symb SELL q lmt)) = last_buy_time st"
  "stop_loss_prices (snd (place_order st e symb SELL q lmt)) = stop_loss_prices st"
proof -
  obtain res st1 where s: "submit_order st e symb SELL q lmt = (res, st1)"
    by (cases "submit_order st e symb SELL q lmt")
  have f: "last_buy_time st1 = last_buy_time st" "stop_loss_prices st1 = stop_loss_prices st"
    using submit_order_fields(1,2) [of st e symb SELL q lmt] s by simp_all
  show "last_buy_time (snd (place_order st e symb SELL q lmt)) = last_buy_time st"
    using s f by (cases res) (auto simp: place_order_def Let_def)
  show "stop_loss_prices (snd (place_order st e symb SELL q lmt)) = stop_loss_prices st"
    using s f by (cases res) (auto simp: place_order_def Let_def)
qed

lemma place_order_buy_filled:
  assumes "fst (submit_order st e symb BUY q lmt) = Some (ord, p, status)"
    and "0 < os_filled status"
  shows "last_buy_time (snd (place_order st e symb BUY q lmt)) symb = Some (now_epoch e)"
    and "cooldown_seconds (snd (place_order st e symb BUY q lmt)) = cooldown_seconds st"
proof -
  obtain res st1 where s: "submit_order st e symb BUY q lmt = (res, st1)"
    by (cases "submit_order st e symb BUY q lmt")
  with assms(1) have r: "res = Some (ord, p, status)" by simp
  have c: "cooldown_seconds st1 = cooldown_seconds st"
    using submit_order_fields(4) [of st e symb BUY q lmt] s by simp
  show "last_buy_time (snd (place_order st e symb BUY q lmt)) symb = Some (now_epoch e)"
    using s r assms(2) by (simp add: place_order_def Let_def)
  show "cooldown_seconds (snd (place_order st e symb BUY q lmt)) = cooldown_seconds st"
    using s r c assms(2) by (simp add: place_order_def Let_def)
qed

lemma short_entry_cooling:
  "\<not> can_buy_again st e symb \<Longrightarrow> short_entry e cap lmt symb st = st"
  by (simp add: short_entry_def)

text \<open>
  C10. In the short loop of \<open>execute_trades\<close> a candidate for which \<open>can_buy_again\<close> is false
  is skipped with nothing changed. After a BUY of the symbol was filled, \<open>can_buy_again\<close> is
  false, and the short entry is skipped, for as long as less than \<open>cooldown_seconds\<close> have
  passed since that fill. A SELL never touches \<open>last_buy_time\<close>.
\<close>

theorem short_entry_respects_buy_cooldown:
  "(\<not> can_buy_again st e symb \<longrightarrow> short_entry e cap lmt symb st = st) \<and>
   (fst (submit_order st0 e0 symb BUY q0 lmt0) = Some (ord, p, status) \<and>
    0 < os_filled status \<and> now_epoch e - now_epoch e0 < cooldown_seconds st0 \<longrightarrow>
      \<not> can_buy_again (snd (place_order st0 e0 symb BUY q0 lmt0)) e symb \<and>
      short_entry e cap lmt symb (snd (place_order st0 e0 symb BUY q0 lmt0)) =
        snd (place_order st0 e0 symb BUY q0 lmt0)) \<and>
   last_buy_time (snd (place_order st e symb SELL q lmt)) = last_buy_time st"
proof -
  have a: "\<not> can_buy_again st e symb \<longrightarrow> short_entry e cap lmt symb st = st"
    by (simp add: short_entry_cooling)
  have b: "fst (submit_order st0 e0 symb BUY q0 lmt0) = Some (ord, p, status) \<and>
    0 < os_filled status \<and> now_epoch e - now_epoch e0 < cooldown_seconds st0 \<longrightarrow>
      \<not> can_buy_again (snd (place_order st0 e0 symb BUY q0 lmt0)) e symb \<and>
      short_entry e cap lmt symb (snd (place_order st0 e0 symb BUY q0 lmt0)) =
        snd (place_order st0 e0 symb BUY q0 lmt0)"
  proof (intro impI, elim conjE)
    assume s: "fst (submit_order st0 e0 symb BUY q0 lmt0) = Some (ord, p, status)"
      and f: "0 < os_filled status"
      and t: "now_epoch e - now_epoch e0 < cooldown_seconds st0"
    have "\<not> can_buy_again (snd (place_order st0 e0 symb BUY q0 lmt0)) e symb"
      using place_order_buy_filled [OF s f] t by (simp add: can_buy_again_def)
    then show "\<not> can_buy_again (snd (place_order st0 e0 symb BUY q0 lmt0)) e symb \<and>
      short_entry e cap lmt symb (snd (place_order st0 e0 symb BUY q0 lmt0)) =
        snd (place_order st0 e0 symb BUY q0 lmt0)"
      by (simp add: short_entry_cooling)
  qed
  have c: "last_buy_time (snd (place_order st e symb SELL q lmt)) = last_buy_time st"
    by (rule place_order_sell_fields)
  from a b c show ?thesis by blast
qed

theorem short_entry_respects_buy_cooldown_witness:
  "fst (submit_order sample_strategy sample_env ''A'' BUY 10 True) =
     Some (make_order sample_env ''A'' BUY 10 (Num 100) True, Num 100,
           \<lparr>os_status = ''Filled'', os_filled = 10, os_remaining = 0, os_avg_fill_price = 98\<rparr>) \<and>
   now_epoch later_env - now_epoch sample_env < cooldown_seconds sample_strategy \<and>
   \<not> can_buy_again (snd (place_order sample_strategy sample_env ''A'' BUY 10 True)) later_env ''A'' \<and>
   short_entry later_env 15000 True ''A''
     (snd (place_order sample_strategy sample_env ''A'' BUY 10 True))
     = snd (place_order sample_strategy sample_env ''A'' BUY 10 True)"
proof -
  have s: "fst (submit_order sample_strategy sample_env ''A'' BUY 10 True) =
     Some (make_order sample_env ''A'' BUY 10 (Num 100) True, Num 100,
           \<lparr>os_status = ''Filled'', os_filled = 10, os_remaining = 0, os_avg_fill_price = 98\<rparr>)"
    by (simp add: order_defs sample_defs)
  have c: "now_epoch later_env - now_epoch sample_env < cooldown_seconds sample_strategy"
    by (simp add: sample_defs)
  from short_entry_respects_buy_cooldown
    [of "snd (place_order sample_strategy sample_env ''A'' BUY 10 True)" later_env "''A''"
        15000 True sample_strategy sample_env 10 True
        "make_order sample_env ''A'' BUY 10 (Num 100) True" "Num 100"
        "\<lparr>os_status = ''Filled'', os_filled = 10, os_remaining = 0, os_avg_fill_price = 98\<rparr>" 1]
    s c
  show ?thesis by simp
qed

lemma get_latest_price_cached:
  assumes "get_latest_price st e symb = (p, st1)"
  shows "get_latest_price st1 e symb = (p, st1)"
  using assms
  by (auto simp: get_latest_price_def split: option.splits if_splits)

lemma get_latest_price_snd_fields:
  assumes "get_latest_price st e symb = (p, st1)"
  shows "orders st1 = orders st" "stop_loss_prices st1 = stop_loss_prices st"
  using get_latest_price_fields(1,3) [of st e symb] assms by simp_all

lemma place_order_orders:
  "orders (snd (place_order st e symb act q lmt)) = orders (snd (submit_order st e symb act q lmt))"
proof (cases "submit_order st e symb act q lmt")
  case (Pair res st1)
  then show ?thesis
    by (cases res) (auto simp: place_order_def Let_def)
qed

lemma submit_order_placed:
  assumes "get_latest_price st e symb = (p, st)" and "\<not> le_zero p" and "1 \<le> q"
    and "qualifies e symb = Some True"
    and "order_feed e (make_order e symb act (py_int q) p lmt) \<noteq> None"
  shows "orders (snd (submit_order st e symb act q lmt)) =
         orders st @ [make_order e symb act (py_int q) p lmt]"
proof -
  have "1 \<le> py_int q" using assms(3) by (simp add: py_int_def le_floor_iff)
  with assms show ?thesis
    by (auto simp: submit_order_def Let_def)
qed

text \<open>
  C5, as amended. For a position of whole shares in a contract the broker qualifies and
  accepts orders for, the stop-loss pass submits a closing limit SELL of \<open>abs(quantity)\<close>
  exactly when the quantity is above 0, a stop-loss price is stored for the symbol, and the
  price fetched is positive and at most the stored stop-loss price. A fetched price of 0 or
  less (no price available) skips the position; without a stored stop-loss price, and for a
  short position, nothing is submitted. A price that is NaN compares false with everything
  and submits nothing either.
\<close>

theorem stop_loss_pass_order:
  assumes "get_latest_price st e symb = (p, st1)"
    and "qualifies e symb = Some True"
    and "order_feed e (make_order e symb SELL (py_int \<bar>q\<bar>) p True) \<noteq> None"
    and "q \<le> 0 \<or> 1 \<le> q"
  shows "orders (monitor_position e (symb, q) st) =
     (if 0 < q \<and> gt_zero p \<and>
         (\<exists>stop. stop_loss_prices st symb = Some stop \<and> float_le p stop)
      then orders st @ [make_order e symb SELL (py_int \<bar>q\<bar>) p True]
      else orders st)"
proof (cases "0 < q \<and> gt_zero p \<and>
    (\<exists>stop. stop_loss_prices st symb = Some stop \<and> float_le p stop)")
  case True
  then have q: "1 \<le> \<bar>q\<bar>" using assms(4) by auto
  from True have c: "check_stop_loss st1 symb p"
    using get_latest_price_snd_fields(2) [OF assms(1)] by (auto simp: check_stop_loss_def)
  have g: "get_latest_price st1 e symb = (p, st1)"
    by (rule get_latest_price_cached [OF assms(1)])
  from True have n: "\<not> le_zero p" by (cases p) auto
  have "orders (snd (place_order st1 e symb SELL \<bar>q\<bar> True)) =
        orders st1 @ [make_order e symb SELL (py_int \<bar>q\<bar>) p True]"
    unfolding place_order_orders
    using submit_order_placed [OF g n q assms(2,3)] by simp
  with True c n assms(1) get_latest_price_snd_fields(1) [OF assms(1)] show ?thesis
    by (simp add: monitor_position_def)
next
  case False
  then have "le_zero p \<or> \<not> (0 < q \<and> check_stop_loss st1 symb p)"
    using get_latest_price_snd_fields(2) [OF assms(1)]
    by (cases p) (auto simp: check_stop_loss_def split: option.splits)
  with False assms(1) get_latest_price_snd_fields(1) [OF assms(1)] show ?thesis
    by (auto simp: monitor_position_def)
qed

theorem stop_loss_pass_order_witness:
  "get_latest_price stopped_strategy falling_env ''AAPL'' =
     (Num 90, snd (get_latest_price stopped_strategy falling_env ''AAPL'')) \<and>
   qualifies falling_env ''AAPL'' = Some True \<and>
   order_feed falling_env (make_order falling_env ''AAPL'' SELL (py_int \<bar>10\<bar>) (Num 90) True) \<noteq> None \<and>
   stop_loss_prices stopped_strategy ''AAPL'' = Some (Num 95) \<and>
   orders (monitor_position falling_env (''AAPL'', 10) stopped_strategy) =
     [make_order falling_env ''AAPL'' SELL 10 (Num 90) True]"
proof -
  have g: "get_latest_price stopped_strategy falling_env ''AAPL'' =
     (Num 90, snd (get_latest_price stopped_strategy falling_env ''AAPL''))"
    by (simp add: order_defs sample_defs)
  have h2: "qualifies falling_env ''AAPL'' = Some True" by (simp add: sample_defs)
  have h3: "order_feed falling_env (make_order falling_env ''AAPL'' SELL (py_int \<bar>10\<bar>) (Num 90) True)
      \<noteq> None"
    by (simp add: sample_defs)
  have h4: "(10::real) \<le> 0 \<or> 1 \<le> (10::real)" by simp
  have s: "stop_loss_prices stopped_strategy ''AAPL'' = Some (Num 95)" by (simp add: sample_defs)
  have o: "orders stopped_strategy = []" by (simp add: sample_defs)
  have i: "py_int \<bar>10\<bar> = 10" by (simp add: py_int_def)
  from stop_loss_pass_order [OF g h2 h3 h4] g h2 h3 s o i show ?thesis by simp
qed

text \<open>
  Ten shares held, a stop-loss price of 95 stored, and no source with a price:
  \<open>get_latest_price\<close> returns 0, which is below 95, and the pass submits nothing.
\<close>

theorem stop_loss_unpriced_counterexample:
  "portfolio dark_env = Some [(''AAPL'', 10)] \<and>
   stop_loss_prices stopped_strategy ''AAPL'' = Some (Num 95) \<and>
   fst (get_latest_price stopped_strategy dark_env ''AAPL'') = Num 0 \<and>
   float_le (Num 0) (Num 95) \<and>
   orders (monitor_positions stopped_strategy dark_env) = []"
  by (simp add: monitor_positions_def monitor_position_def get_current_positions_def
      check_stop_loss_def order_defs sample_defs)

text \<open>
  C6, as amended. When trading is not permitted, \<open>execute_trades\<close> returns at once: no
  entry order is submitted and nothing changes. The rest of the cycle still runs: after the
  selection, whose report fetches (and caches) a price for every candidate, \<open>run\<close> goes on
  to the stop-loss pass and the holding-period pass, which do not consult the session and
  submit their closing orders.
\<close>

theorem closed_session_skips_entries:
  assumes "\<not> can_trade_now e"
  shows "execute_trades st e long_stocks short_stocks = st \<and>
         run st e =
           (if earnings_loaded e
            then (True,
                  check_exit_positions (monitor_positions (select_stocks_writes st e) e) e)
            else (False, st))"
  using assms by (simp add: execute_trades_def run_def split_def Let_def)

lemma weekend_closed: "\<not> can_trade_now weekend_env"
  by (simp add: can_trade_now_def is_trading_day_def weekday_def sample_defs)

theorem closed_session_skips_entries_witness:
  "\<not> can_trade_now weekend_env \<and> earnings_loaded weekend_env \<and>
   execute_trades stopped_strategy weekend_env [''C''] [''A''] = stopped_strategy \<and>
   run stopped_strategy weekend_env =
     (True,
      check_exit_positions
        (monitor_positions (select_stocks_writes stopped_strategy weekend_env) weekend_env)
        weekend_env)"
proof -
  have l: "earnings_loaded weekend_env" by (simp add: sample_defs)
  from closed_session_skips_entries [OF weekend_closed, of stopped_strategy "[''C'']" "[''A'']"]
    weekend_closed l
  show ?thesis by simp
qed

lemma sample_selection: "select_stocks 20 sample_returns = ([''C''], [''A''])"
  by (simp add: select_stocks_def quintile_candidates_def returns_df_def frame_rows_def
      quintile_count_div resolve_overlap_def common_stocks_def force_remove_def
      sample_returns_def Let_def)

lemma weekend_selection:
  "select_stocks_writes stopped_strategy weekend_env =
     stopped_strategy\<lparr>price_cache :=
       [cache_key weekend_env ''C'' \<mapsto> Num 90, cache_key weekend_env ''A'' \<mapsto> Num 90]\<rparr>"
proof -
  have m: "max_positions stopped_strategy = 20" "pre_earnings_returns weekend_env = sample_returns"
    by (simp_all add: sample_defs)
  have v: "2 \<le> length (valid_returns_of sample_returns)" by (simp add: sample_returns_def)
  show ?thesis
    unfolding select_stocks_writes_def m sample_selection
    using v by (simp add: print_stock_selection_def order_defs sample_defs)
qed

lemma weekend_monitor:
  "orders (monitor_positions (select_stocks_writes stopped_strategy weekend_env) weekend_env) =
     [make_order weekend_env ''AAPL'' SELL 10 (Num 90) True]"
  unfolding weekend_selection
  by (simp add: monitor_positions_def monitor_position_def
      get_current_positions_def check_stop_loss_def order_defs sample_defs)

lemma get_current_positions_orders:
  "orders (snd (get_current_positions st e)) = orders st"
  by (simp add: get_current_positions_def Let_def split: option.splits)

lemma weekend_exit:
  "orders (check_exit_positions st weekend_env) = orders st"
  by (simp add: check_exit_positions_def exit_position_def get_current_positions_def Let_def
      sample_defs)

text \<open>
  On a Saturday, with ten shares of AAPL held, a stop-loss price of 95 stored and a quote of
  90, one cycle submits the closing SELL.
\<close>

theorem closed_session_exit_counterexample:
  "\<not> can_trade_now weekend_env \<and>
   orders stopped_strategy = [] \<and>
   fst (run stopped_strategy weekend_env) \<and>
   orders (snd (run stopped_strategy weekend_env)) =
     [make_order weekend_env ''AAPL'' SELL 10 (Num 90) True]"
proof -
  have l: "earnings_loaded weekend_env" by (simp add: sample_defs)
  have r: "run stopped_strategy weekend_env =
     (True,
      check_exit_positions
        (monitor_positions (select_stocks_writes stopped_strategy weekend_env) weekend_env)
        weekend_env)"
    using weekend_closed l by (simp add: execute_trades_def run_def split_def Let_def)
  have o: "orders stopped_strategy = []" by (simp add: sample_defs)
  show ?thesis
    using weekend_closed by (simp add: r o weekend_exit weekend_monitor)
qed

lemma get_current_positions_frame:
  "snd (get_current_positions st e) =
     st\<lparr>positions := positions (snd (get_current_positions st e))\<rparr>"
  by (simp add: get_current_positions_def Let_def split: option.splits)

text \<open>
  C7, as amended. Once trading is permitted, a candidate exists and the account summary is
  read: the total capital is the net liquidation value times 0.3, each direction gets half
  of it, and each candidate of a direction gets that half divided by \<open>max(count, 1)\<close>; the
  two loops run with these amounts. With a net liquidation value of 0 or less no order is
  submitted and nothing changes except \<open>positions\<close>, which was refreshed from the broker
  before the account summary was read.
\<close>

theorem execute_trades_allocation:
  assumes "can_trade_now e" and "long_stocks \<noteq> [] \<or> short_stocks \<noteq> []"
    and "account_summary e = Some rows"
  shows
   "total_capital (net_liquidation_of rows) = net_liquidation_of rows * 0.3 \<and>
    (long_stocks \<noteq> [] \<longrightarrow>
       long_capital_per_stock (net_liquidation_of rows) long_stocks =
         net_liquidation_of rows * 0.3 * 0.5 / real (max (length long_stocks) 1)) \<and>
    (short_stocks \<noteq> [] \<longrightarrow>
       short_capital_per_stock (net_liquidation_of rows) short_stocks =
         net_liquidation_of rows * 0.3 * 0.5 / real (max (length short_stocks) 1)) \<and>
    (net_liquidation_of rows \<le> 0 \<longrightarrow>
       execute_trades st e long_stocks short_stocks =
         st\<lparr>positions := positions (snd (get_current_positions st e))\<rparr>) \<and>
    (0 < net_liquidation_of rows \<longrightarrow>
       execute_trades st e long_stocks short_stocks =
         fold (short_entry e (short_capital_per_stock (net_liquidation_of rows) short_stocks)
                 (\<not> is_regular_hours e)) short_stocks
           (fold (long_entry e (long_capital_per_stock (net_liquidation_of rows) long_stocks)
                    (\<not> is_regular_hours e)) long_stocks
              (load_trade_history (snd (get_current_positions st e)) e)))"
proof -
  have a: "total_capital (net_liquidation_of rows) = net_liquidation_of rows * 0.3"
    by (simp add: total_capital_def capital_ratio_def)
  have b: "long_stocks \<noteq> [] \<longrightarrow>
       long_capital_per_stock (net_liquidation_of rows) long_stocks =
         net_liquidation_of rows * 0.3 * 0.5 / real (max (length long_stocks) 1)"
    by (simp add: long_capital_per_stock_def total_capital_def capital_ratio_def
        long_allocation_ratio_def)
  have c: "short_stocks \<noteq> [] \<longrightarrow>
       short_capital_per_stock (net_liquidation_of rows) short_stocks =
         net_liquidation_of rows * 0.3 * 0.5 / real (max (length short_stocks) 1)"
    by (simp add: short_capital_per_stock_def total_capital_def capital_ratio_def
        short_allocation_ratio_def)
  have d: "net_liquidation_of rows \<le> 0 \<longrightarrow>
       execute_trades st e long_stocks short_stocks =
         st\<lparr>positions := positions (snd (get_current_positions st e))\<rparr>"
    using assms get_current_positions_frame [of st e]
    by (auto simp: execute_trades_def Let_def)
  have f: "0 < net_liquidation_of rows \<longrightarrow>
       execute_trades st e long_stocks short_stocks =
         fold (short_entry e (short_capital_per_stock (net_liquidation_of rows) short_stocks)
                 (\<not> is_regular_hours e)) short_stocks
           (fold (long_entry e (long_capital_per_stock (net_liquidation_of rows) long_stocks)
                    (\<not> is_regular_hours e)) long_stocks
              (load_trade_history (snd (get_current_positions st e)) e))"
    using assms by (auto simp: execute_trades_def Let_def)
  from a b c d f show ?thesis by blast
qed

lemma sample_can_trade: "can_trade_now sample_env"
  by (simp add: can_trade_now_def is_trading_day_def us_holidays_2025_def weekday_def
      time_hm_def sample_defs)

lemma sample_net: "net_liquidation_of [(''NetLiquidation'', ''USD'', Some 100000)] = 100000"
  by simp

theorem execute_trades_allocation_witness:
  "can_trade_now sample_env \<and>
   account_summary sample_env = Some [(''NetLiquidation'', ''USD'', Some 100000)] \<and>
   long_capital_per_stock 100000 [''C''] = 15000 \<and>
   short_capital_per_stock 100000 [''A''] = 15000 \<and>
   orders (execute_trades sample_strategy sample_env [''C''] [''A'']) =
     [make_order sample_env ''C'' BUY 150 (Num 100) False,
      make_order sample_env ''A'' SELL 150 (Num 100) False]"
proof -
  have h2: "[''C''] \<noteq> [] \<or> [''A''] \<noteq> []" by simp
  have h3: "account_summary sample_env = Some [(''NetLiquidation'', ''USD'', Some 100000)]"
    by (simp add: sample_defs)
  have r: "\<not> \<not> is_regular_hours sample_env"
    by (simp add: is_regular_hours_def weekday_def time_hm_def sample_defs)
  have l: "long_capital_per_stock 100000 [''C''] = 15000"
    by (simp add: long_capital_per_stock_def total_capital_def capital_ratio_def
        long_allocation_ratio_def)
  have s: "short_capital_per_stock 100000 [''A''] = 15000"
    by (simp add: short_capital_per_stock_def total_capital_def capital_ratio_def
        short_allocation_ratio_def)
  have o: "orders (fold (short_entry sample_env 15000 False) [''A'']
            (fold (long_entry sample_env 15000 False) [''C'']
              (load_trade_history (snd (get_current_positions sample_strategy sample_env))
                 sample_env))) =
     [make_order sample_env ''C'' BUY 150 (Num 100) False,
      make_order sample_env ''A'' SELL 150 (Num 100) False]"
    by (simp add: long_entry_def short_entry_def is_traded_today_def can_buy_again_def
        load_trade_history_def get_current_positions_def record_trade_def order_defs sample_defs)
  from execute_trades_allocation [OF sample_can_trade h2 h3, of sample_strategy]
    sample_can_trade h3 l s o r
  show ?thesis by (simp add: sample_net)
qed

text \<open>
  With a net liquidation value of 0 the stored positions are still replaced by the
  broker's portfolio.
\<close>

theorem zero_equity_refresh_counterexample:
  "can_trade_now broke_env \<and>
   account_summary broke_env = Some [(''NetLiquidation'', ''USD'', Some 0)] \<and>
   net_liquidation_of [(''NetLiquidation'', ''USD'', Some 0)] \<le> 0 \<and>
   positions sample_strategy = [] \<and>
   positions (execute_trades sample_strategy broke_env [''C''] [''A'']) = [(''AAPL'', 10)]"
  by (simp add: execute_trades_def get_current_positions_def can_trade_now_def
      is_trading_day_def us_holidays_2025_def weekday_def time_hm_def Let_def sample_defs)

end
